theory Spec2Isabelle
  imports Main "HOL-Library.AList"
begin

section \<open>Data model\<close>

text \<open>
  A conversation turn is the Python dict with the two keys \<^verbatim>\<open>role\<close> and
  \<^verbatim>\<open>content\<close> that \<^verbatim>\<open>bot_manager.py\<close> and \<^verbatim>\<open>onlysq_api.py\<close> build.
  The texts that the program only passes on are ASCII strings here; the credential
  that the format check inspects is a list of Unicode code points. The user-facing
  texts of the source are Russian sentences
  (some with a leading emoji); each is rendered below as a named constant holding a
  Latin transliteration, and nothing in the development depends on their wording
  beyond the constants being different texts.
\<close>

record message =
  role :: string
  content :: string

text \<open>Exceptions of class \<^verbatim>\<open>Exception\<close>, carrying their text.\<close>

datatype exn = Exception string

section \<open>The gateway client (\<^verbatim>\<open>OnlySqAPI\<close>)\<close>

text \<open>
  What happens inside the \<^verbatim>\<open>async with session.post(...)\<close> block of \<^verbatim>\<open>chat\<close>:
  \<^item> \<open>TimeoutError\<close>: \<^verbatim>\<open>asyncio.TimeoutError\<close> is raised, by the request or while the
    body is read;
  \<^item> \<open>OtherError e\<close>: any other exception is raised by the request or by
    \<^verbatim>\<open>response.text()\<close>;
  \<^item> \<open>Response status body\<close>: a response with this status arrived. For status 200,
    \<open>body\<close> is the result of \<^verbatim>\<open>data['choices'][0]['message']['content']\<close> on the
    parsed JSON, \<open>None\<close> when \<^verbatim>\<open>response.json()\<close> or one of the subscripts raises.
\<close>

datatype http_outcome =
    TimeoutError
  | OtherError exn
  | Response int "string option"

text \<open>
  The JSON payload of the request. The \<^verbatim>\<open>temperature\<close> field is a float that the
  source passes through unchanged; it is left out of the model.
\<close>

record payload =
  model :: string
  messages :: "message list"

definition API_ERROR_TEXT :: string where
  "API_ERROR_TEXT = ''Izvini, proizoshla oshibka pri obrashchenii k API.''"

definition API_TIMEOUT_TEXT :: string where
  "API_TIMEOUT_TEXT = ''Izvini, zapros zanyal slishkom mnogo vremeni.''"

definition API_FAILURE_TEXT :: string where
  "API_FAILURE_TEXT = ''Proizoshla oshibka pri obrabotke zaprosa.''"

definition full_messages :: "message list \<Rightarrow> string \<Rightarrow> message list" where
  "full_messages msgs system_prompt =
     (let full = [];
          full = (if system_prompt \<noteq> []
                  then full @ [\<lparr>role = ''system'', content = system_prompt\<rparr>]
                  else full)
      in full @ msgs)"

definition chat_payload :: "message list \<Rightarrow> string \<Rightarrow> string \<Rightarrow> payload" where
  "chat_payload msgs system_prompt mdl =
     \<lparr>model = mdl, messages = full_messages msgs system_prompt\<rparr>"

text \<open>
  \<^verbatim>\<open>OnlySqAPI.chat\<close>: the remote endpoint is the parameter \<open>post\<close>. Every failure
  inside the \<^verbatim>\<open>try\<close> block is turned into one of three fixed texts, so the method
  returns a string on every path. (Getting the session, before the \<^verbatim>\<open>try\<close> block,
  is taken to succeed.)
\<close>

definition chat ::
  "(payload \<Rightarrow> http_outcome) \<Rightarrow> message list \<Rightarrow> string \<Rightarrow> string \<Rightarrow> string" where
  "chat post msgs system_prompt mdl =
     (case post (chat_payload msgs system_prompt mdl) of
        TimeoutError \<Rightarrow> API_TIMEOUT_TEXT
      | OtherError e \<Rightarrow> API_FAILURE_TEXT
      | Response status body \<Rightarrow>
          if status \<noteq> 200 then API_ERROR_TEXT
          else (case body of None \<Rightarrow> API_FAILURE_TEXT | Some text \<Rightarrow> text))"

definition DEFAULT_MODEL :: string where
  "DEFAULT_MODEL = ''gpt-4o-mini''"

section \<open>The worker (\<^verbatim>\<open>ManagedBot\<close>)\<close>

text \<open>
  \<^verbatim>\<open>application\<close> is \<open>False\<close> for \<^verbatim>\<open>None\<close> and \<open>True\<close> once \<^verbatim>\<open>start_polling\<close> has
  built it. \<^verbatim>\<open>user_contexts\<close> is the dict from end-user identifier to history. The
  shared gateway client \<^verbatim>\<open>onlysq\<close> is passed to the handlers as the endpoint \<open>post\<close>.
\<close>

record managed_bot =
  bot_id :: int
  bot_token :: string
  system_prompt :: string
  application :: bool
  user_contexts :: "int \<rightharpoonup> message list"

definition ManagedBot :: "int \<Rightarrow> string \<Rightarrow> string \<Rightarrow> managed_bot" where
  "ManagedBot bid token prompt =
     \<lparr>bot_id = bid, bot_token = token, system_prompt = prompt,
      application = False, user_contexts = Map.empty\<rparr>"

definition START_TEXT :: string where
  "START_TEXT = ''Privet! Ya gotov k obshcheniyu. Napishi mne chto-nibud!''"

definition APOLOGY_TEXT :: string where
  "APOLOGY_TEXT = ''Izvini, proizoshla oshibka. Poprobuy eshche raz.''"

definition RESET_TEXT :: string where
  "RESET_TEXT = ''Kontekst dialoga sbroshen. Nachnem s chistogo lista!''"

text \<open>
  What a handler did: the worker afterwards, the texts that \<^verbatim>\<open>reply_text\<close> delivered,
  and the exception that left the handler, if any. The transport is the parameter
  \<open>reply_text\<close>: \<open>None\<close> when the text was delivered, \<open>Some e\<close> when the call raised.
\<close>

record handled =
  bot :: managed_bot
  replies :: "string list"
  raised :: "exn option"

definition start_handler :: "(string \<Rightarrow> exn option) \<Rightarrow> managed_bot \<Rightarrow> int \<Rightarrow> handled" where
  "start_handler reply_text self user_id =
     (let self1 = self\<lparr>user_contexts := (user_contexts self)(user_id \<mapsto> [])\<rparr>
      in case reply_text START_TEXT of
           None \<Rightarrow> \<lparr>bot = self1, replies = [START_TEXT], raised = None\<rparr>
         | Some e \<Rightarrow> \<lparr>bot = self1, replies = [], raised = Some e\<rparr>)"

definition reset_handler :: "(string \<Rightarrow> exn option) \<Rightarrow> managed_bot \<Rightarrow> int \<Rightarrow> handled" where
  "reset_handler reply_text self user_id =
     (let self1 = self\<lparr>user_contexts := (user_contexts self)(user_id \<mapsto> [])\<rparr>
      in case reply_text RESET_TEXT of
           None \<Rightarrow> \<lparr>bot = self1, replies = [RESET_TEXT], raised = None\<rparr>
         | Some e \<Rightarrow> \<lparr>bot = self1, replies = [], raised = Some e\<rparr>)"

text \<open>
  The first half of \<^verbatim>\<open>message_handler\<close>: create the history if the user has none,
  append the user turn, and keep the last 20 entries if there are more than 20
  (\<^verbatim>\<open>history[-20:]\<close>).
\<close>

definition history_of :: "managed_bot \<Rightarrow> int \<Rightarrow> message list" where
  "history_of self user_id = (case user_contexts self user_id of None \<Rightarrow> [] | Some h \<Rightarrow> h)"

definition append_user_turn :: "message list \<Rightarrow> string \<Rightarrow> message list" where
  "append_user_turn h0 user_message =
     (let h1 = h0 @ [\<lparr>role = ''user'', content = user_message\<rparr>]
      in if length h1 > 20 then drop (length h1 - 20) h1 else h1)"

definition user_turn :: "managed_bot \<Rightarrow> int \<Rightarrow> string \<Rightarrow> message list" where
  "user_turn self user_id user_message = append_user_turn (history_of self user_id) user_message"

text \<open>
  The second half: the \<^verbatim>\<open>try\<close> block calls \<^verbatim>\<open>chat\<close>, appends the assistant turn and
  replies; the only call in it that can raise is \<^verbatim>\<open>reply_text\<close>, and then the
  \<^verbatim>\<open>except\<close> block replies with the apology (a failure of that second reply leaves
  the handler). There is no cap after the assistant turn.
\<close>

definition message_handler ::
  "(payload \<Rightarrow> http_outcome) \<Rightarrow> (string \<Rightarrow> exn option) \<Rightarrow> managed_bot \<Rightarrow> int \<Rightarrow> string
     \<Rightarrow> handled" where
  "message_handler post reply_text self user_id user_message =
     (let h2 = user_turn self user_id user_message;
          response = chat post h2 (system_prompt self) DEFAULT_MODEL;
          h3 = h2 @ [\<lparr>role = ''assistant'', content = response\<rparr>];
          self1 = self\<lparr>user_contexts := (user_contexts self)(user_id \<mapsto> h3)\<rparr>
      in case reply_text response of
           None \<Rightarrow> \<lparr>bot = self1, replies = [response], raised = None\<rparr>
         | Some e \<Rightarrow>
             (case reply_text APOLOGY_TEXT of
                None \<Rightarrow> \<lparr>bot = self1, replies = [APOLOGY_TEXT], raised = None\<rparr>
              | Some e2 \<Rightarrow> \<lparr>bot = self1, replies = [], raised = Some e2\<rparr>))"

text \<open>
  The updates a worker receives, as \<^verbatim>\<open>start_polling\<close> registers its handlers: the
  commands \<^verbatim>\<open>/start\<close> and \<^verbatim>\<open>/reset\<close>, and any other text. A text update carries the
  behaviour of the endpoint during its handling. An exception that leaves a handler
  does not stop the worker; the next update is handled in the state the handler left.
\<close>

datatype update = StartCommand int | ResetCommand int
  | TextMessage int string "payload \<Rightarrow> http_outcome"

fun dispatch :: "(string \<Rightarrow> exn option) \<Rightarrow> managed_bot \<Rightarrow> update \<Rightarrow> handled" where
  "dispatch reply_text self (StartCommand u) = start_handler reply_text self u"
| "dispatch reply_text self (ResetCommand u) = reset_handler reply_text self u"
| "dispatch reply_text self (TextMessage u text post) = message_handler post reply_text self u text"

fun process_updates :: "(string \<Rightarrow> exn option) \<Rightarrow> managed_bot \<Rightarrow> update list \<Rightarrow> managed_bot" where
  "process_updates reply_text self [] = self"
| "process_updates reply_text self (upd # upds) =
     process_updates reply_text (bot (dispatch reply_text self upd)) upds"

text \<open>
  Test doubles: a transport that always delivers, endpoints with a fixed behaviour, and
  an endpoint that answers one request only and refuses every other with status 400.
\<close>

definition delivering :: "string \<Rightarrow> exn option" where
  "delivering text = None"

definition replying :: "string \<Rightarrow> payload \<Rightarrow> http_outcome" where
  "replying text p = Response 200 (Some text)"

definition timing_out :: "payload \<Rightarrow> http_outcome" where
  "timing_out p = TimeoutError"

definition expecting :: "payload \<Rightarrow> string \<Rightarrow> payload \<Rightarrow> http_outcome" where
  "expecting wanted reply p = (if p = wanted then Response 200 (Some reply) else Response 400 None)"

text \<open>
  A scripted conversation: the \<open>i\<close>-th update is the text \<open>msg i\<close> from end-user
  \<open>u\<close>, answered by the endpoint with \<open>rep i\<close>. \<open>question\<close> and \<open>answer\<close> number
  the texts with the letters A, B, C, ...
\<close>

definition exchange :: "int \<Rightarrow> (nat \<Rightarrow> string) \<Rightarrow> (nat \<Rightarrow> string) \<Rightarrow> nat \<Rightarrow> update" where
  "exchange u msg rep i = TextMessage u (msg i) (replying (rep i))"

definition letter :: "nat \<Rightarrow> char" where
  "letter i = char_of (64 + i)"

definition question :: "nat \<Rightarrow> string" where
  "question i = ''question '' @ [letter i]"

definition answer :: "nat \<Rightarrow> string" where
  "answer i = ''answer '' @ [letter i]"

section \<open>The supervisor (\<^verbatim>\<open>BotManager\<close>)\<close>

text \<open>
  \<^verbatim>\<open>start_polling\<close> and \<^verbatim>\<open>stop\<close> talk to the messaging platform; what the platform
  does is a parameter: \<open>None\<close> when the calls went through, \<open>Some e\<close> when one of them
  raised \<open>e\<close>. \<^verbatim>\<open>stop\<close> does nothing when no application was built.
\<close>

definition start_polling :: "(string \<Rightarrow> exn option) \<Rightarrow> managed_bot \<Rightarrow> exn + managed_bot" where
  "start_polling platform self =
     (case platform (bot_token self) of
        None \<Rightarrow> Inr (self\<lparr>application := True\<rparr>)
      | Some e \<Rightarrow> Inl e)"

definition stop :: "(managed_bot \<Rightarrow> exn option) \<Rightarrow> managed_bot \<Rightarrow> exn + unit" where
  "stop platform self =
     (if application self
      then (case platform self of None \<Rightarrow> Inr () | Some e \<Rightarrow> Inl e)
      else Inr ())"

text \<open>
  The registry \<^verbatim>\<open>bots\<close> is a dict, kept as an association list in insertion order:
  \<open>AList.update\<close> overwrites the value of a key in place or appends a new key, and
  \<open>AList.delete\<close> removes a key, as assignment and \<^verbatim>\<open>del\<close> do on a dict.
\<close>

record bot_manager =
  bots :: "(int \<times> managed_bot) list"

definition BotManager :: bot_manager where
  "BotManager = \<lparr>bots = []\<rparr>"

definition get_running_bots :: "bot_manager \<Rightarrow> int list" where
  "get_running_bots self = map fst (bots self)"

text \<open>\<^verbatim>\<open>try: ... except Exception as e: ...\<close>\<close>

definition try_except :: "exn + 'a \<Rightarrow> (exn \<Rightarrow> exn + 'a) \<Rightarrow> exn + 'a" where
  "try_except body handler = (case body of Inl e \<Rightarrow> handler e | Inr x \<Rightarrow> Inr x)"

text \<open>
  \<^verbatim>\<open>start_bot\<close> is a coroutine with one suspension point, the
  \<^verbatim>\<open>await managed_bot.start_polling()\<close>. \<open>start_bot_enter\<close> is the code up to it, run on
  the registry as it is when the call is made; \<open>start_bot_resume\<close> is the rest, run on
  the registry as it is when the coroutine resumes. \<open>start_bot\<close> is a call that nothing
  else runs in between.
\<close>

datatype start_task = Returned bool | Suspended managed_bot

definition start_bot_enter :: "bot_manager \<Rightarrow> int \<Rightarrow> string \<Rightarrow> string \<Rightarrow> start_task" where
  "start_bot_enter self bid token prompt =
     (if bid \<in> set (map fst (bots self)) then Returned False
      else Suspended (ManagedBot bid token prompt))"

definition start_bot_resume ::
  "(string \<Rightarrow> exn option) \<Rightarrow> bot_manager \<Rightarrow> start_task \<Rightarrow> exn + (bool \<times> bot_manager)" where
  "start_bot_resume platform self task =
     (case task of
        Returned b \<Rightarrow> Inr (b, self)
      | Suspended managed \<Rightarrow>
          try_except
            (case start_polling platform managed of
               Inl e \<Rightarrow> Inl e
             | Inr started \<Rightarrow>
                 Inr (True, self\<lparr>bots := AList.update (bot_id started) started (bots self)\<rparr>))
            (\<lambda>e. Inr (False, self)))"

definition start_bot ::
  "(string \<Rightarrow> exn option) \<Rightarrow> bot_manager \<Rightarrow> int \<Rightarrow> string \<Rightarrow> string
     \<Rightarrow> exn + (bool \<times> bot_manager)" where
  "start_bot platform self bid token prompt =
     start_bot_resume platform self (start_bot_enter self bid token prompt)"

definition stop_bot ::
  "(managed_bot \<Rightarrow> exn option) \<Rightarrow> bot_manager \<Rightarrow> int \<Rightarrow> exn + (bool \<times> bot_manager)" where
  "stop_bot platform self bid =
     (case map_of (bots self) bid of
        None \<Rightarrow> Inr (False, self)
      | Some managed \<Rightarrow>
          try_except
            (case stop platform managed of
               Inl e \<Rightarrow> Inl e
             | Inr u \<Rightarrow> Inr (True, self\<lparr>bots := AList.delete bid (bots self)\<rparr>))
            (\<lambda>e. Inr (False, self)))"

text \<open>
  Two calls of \<^verbatim>\<open>start_bot\<close> for the same identifier whose suspensions overlap: both
  run up to the \<^verbatim>\<open>await\<close> before either resumes, then the first resumes, then the
  second. Each call has its own credential, behaviour profile and platform behaviour.
  The results are those of the first and of the second call, and the registry
  afterwards.
\<close>

definition registry_after :: "bot_manager \<Rightarrow> exn + (bool \<times> bot_manager) \<Rightarrow> bot_manager" where
  "registry_after self result = (case result of Inl e \<Rightarrow> self | Inr (r, self1) \<Rightarrow> self1)"

definition overlapping_starts ::
  "bot_manager \<Rightarrow> int \<Rightarrow> (string \<Rightarrow> exn option) \<Rightarrow> string \<Rightarrow> string
     \<Rightarrow> (string \<Rightarrow> exn option) \<Rightarrow> string \<Rightarrow> string
     \<Rightarrow> (exn + bool) \<times> (exn + bool) \<times> bot_manager" where
  "overlapping_starts self bid platform1 token1 prompt1 platform2 token2 prompt2 =
     (let task1 = start_bot_enter self bid token1 prompt1;
          task2 = start_bot_enter self bid token2 prompt2;
          result1 = start_bot_resume platform1 self task1;
          self1 = registry_after self result1;
          result2 = start_bot_resume platform2 self1 task2;
          self2 = registry_after self1 result2
      in (map_sum id fst result1, map_sum id fst result2, self2))"

text \<open>Platforms with a fixed behaviour.\<close>

definition accepting :: "string \<Rightarrow> exn option" where
  "accepting token = None"

definition rejecting :: "string \<Rightarrow> exn option" where
  "rejecting token = Some (Exception ''InvalidToken'')"

definition releasing :: "managed_bot \<Rightarrow> exn option" where
  "releasing managed = None"

definition failing :: "managed_bot \<Rightarrow> exn option" where
  "failing managed = Some (Exception ''NetworkError'')"

section \<open>The credential format check (\<^verbatim>\<open>BotFactory._validate_token\<close>)\<close>

text \<open>
  A Python string is a sequence of Unicode code points; a token is a list of code
  points here, and \<open>codepoints\<close> turns ASCII text into one. \<^verbatim>\<open>len\<close> counts code
  points.
\<close>

type_synonym str = "nat list"

definition codepoints :: "string \<Rightarrow> str" where
  "codepoints s = map of_char s"

definition COLON :: nat where
  "COLON = 58"

text \<open>\<^verbatim>\<open>str.split(sep)\<close> with a one-character separator.\<close>

fun split_str :: "'a \<Rightarrow> 'a list \<Rightarrow> 'a list list" where
  "split_str sep [] = [[]]"
| "split_str sep (c # cs) =
     (if c = sep then [] # split_str sep cs
      else (case split_str sep cs of [] \<Rightarrow> [[c]] | part # parts \<Rightarrow> (c # part) # parts))"

text \<open>
  \<^verbatim>\<open>str.isdigit()\<close> is true when the string has at least one character and every
  character is a digit of the Unicode character database (Numeric_Type Digit or
  Decimal). The database is not part of the repository: the property is the parameter
  \<open>digit\<close>. \<open>latin1_digit\<close> is that property on the code points below 256: the
  decimal digits 0 to 9, and superscript two, three and one (U+00B2, U+00B3, U+00B9).
  \<open>decimal_digit\<close> is the decimal digits 0 to 9 alone.
\<close>

definition isdigit :: "(nat \<Rightarrow> bool) \<Rightarrow> str \<Rightarrow> bool" where
  "isdigit digit s = (s \<noteq> [] \<and> list_all digit s)"

definition latin1_digit :: "nat \<Rightarrow> bool" where
  "latin1_digit c = (48 \<le> c \<and> c \<le> 57 \<or> c = 178 \<or> c = 179 \<or> c = 185)"

definition decimal_digit :: "nat \<Rightarrow> bool" where
  "decimal_digit c = (48 \<le> c \<and> c \<le> 57)"

definition validate_token :: "(nat \<Rightarrow> bool) \<Rightarrow> str \<Rightarrow> bool" where
  "validate_token digit token =
     (let parts = split_str COLON token
      in if length parts \<noteq> 2 then False
         else isdigit digit (parts ! 0) \<and> length (parts ! 1) > 20)"

section \<open>Properties of the worker\<close>

lemma message_handler_history:
  "user_contexts (bot (message_handler post rt self u m)) u
     = Some (user_turn self u m
             @ [\<lparr>role = ''assistant'',
                 content = chat post (user_turn self u m) (system_prompt self) DEFAULT_MODEL\<rparr>])"
  by (simp add: message_handler_def Let_def split: option.splits)

lemma message_handler_others:
  "v \<noteq> u \<Longrightarrow> user_contexts (bot (message_handler post rt self u m)) v = user_contexts self v"
  by (simp add: message_handler_def Let_def split: option.splits)

lemma message_handler_replies:
  "rt (chat post (user_turn self u m) (system_prompt self) DEFAULT_MODEL) = None \<Longrightarrow>
   replies (message_handler post rt self u m)
     = [chat post (user_turn self u m) (system_prompt self) DEFAULT_MODEL]
   \<and> raised (message_handler post rt self u m) = None"
  by (simp add: message_handler_def Let_def)

lemma length_append_user_turn: "length (append_user_turn h m) \<le> 20"
  by (simp add: append_user_turn_def Let_def)

lemma chat_replying: "chat (replying r) h p mdl = r"
  by (simp add: chat_def replying_def)

subsection \<open>Gateway failures\<close>

text \<open>
  On every failure of the gateway call, \<^verbatim>\<open>chat\<close> returns a fixed text instead of
  raising: the timeout text on a timeout, the API-error text on a status other than
  200, the failure text on any other exception or on a body that cannot be read. So
  the \<^verbatim>\<open>except\<close> branch of \<^verbatim>\<open>message_handler\<close>, which replies with the apology and
  appends nothing, is not taken: the text is appended to the history as an assistant
  turn and sent as the reply.
\<close>

lemma gateway_failure_is_handled_as_a_reply:
  assumes "post (chat_payload (user_turn self u m) (system_prompt self) DEFAULT_MODEL) = out"
    and "out = TimeoutError \<and> t = API_TIMEOUT_TEXT
         \<or> (\<exists>e. out = OtherError e) \<and> t = API_FAILURE_TEXT
         \<or> (\<exists>status body. out = Response status body \<and> status \<noteq> 200) \<and> t = API_ERROR_TEXT
         \<or> out = Response 200 None \<and> t = API_FAILURE_TEXT"
  shows "user_contexts (bot (message_handler post rt self u m)) u
           = Some (user_turn self u m @ [\<lparr>role = ''assistant'', content = t\<rparr>])
         \<and> (rt t = None \<longrightarrow>
              replies (message_handler post rt self u m) = [t]
              \<and> raised (message_handler post rt self u m) = None)"
proof -
  have t: "chat post (user_turn self u m) (system_prompt self) DEFAULT_MODEL = t"
    using assms by (auto simp: chat_def)
  show ?thesis
    using message_handler_history [of post rt self u m]
          message_handler_replies [of rt post self u m]
    by (simp add: t)
qed

text \<open>
  C1. The claim: when the gateway call fails, the handler sends its fixed apology and
  appends no assistant turn, so that the history is the one after the user turn. The
  code at a failing gateway call: the endpoint times out while a fresh worker handles
  the text \<open>hello\<close> of end-user 7. The history afterwards holds the user turn and an
  assistant turn with the timeout text of the gateway client, and the reply is that
  text: neither the history after the user turn nor the apology of the handler.
\<close>

theorem C1_timeout_is_recorded_as_assistant_turn:
  "user_turn (ManagedBot 1 ''1:t'' ''tutor'') 7 ''hello'' = [\<lparr>role = ''user'', content = ''hello''\<rparr>]
   \<and> user_contexts (bot (message_handler timing_out delivering (ManagedBot 1 ''1:t'' ''tutor'') 7 ''hello'')) 7
     = Some [\<lparr>role = ''user'', content = ''hello''\<rparr>,
             \<lparr>role = ''assistant'', content = API_TIMEOUT_TEXT\<rparr>]
   \<and> replies (message_handler timing_out delivering (ManagedBot 1 ''1:t'' ''tutor'') 7 ''hello'')
     = [API_TIMEOUT_TEXT]
   \<and> API_TIMEOUT_TEXT \<noteq> APOLOGY_TEXT"
proof -
  have turn: "user_turn (ManagedBot 1 ''1:t'' ''tutor'') 7 ''hello''
                = [\<lparr>role = ''user'', content = ''hello''\<rparr>]"
    by (simp add: user_turn_def append_user_turn_def history_of_def ManagedBot_def Let_def)
  have timeout_text: "chat timing_out [\<lparr>role = ''user'', content = ''hello''\<rparr>]
                (system_prompt (ManagedBot 1 ''1:t'' ''tutor'')) DEFAULT_MODEL = API_TIMEOUT_TEXT"
    by (simp add: chat_def timing_out_def)
  have differ: "API_TIMEOUT_TEXT \<noteq> APOLOGY_TEXT"
    by (simp add: API_TIMEOUT_TEXT_def APOLOGY_TEXT_def)
  show ?thesis
    using message_handler_history
            [of timing_out delivering "ManagedBot 1 ''1:t'' ''tutor''" 7 "''hello''"]
          message_handler_replies
            [of delivering timing_out "ManagedBot 1 ''1:t'' ''tutor''" 7 "''hello''"]
    by (simp add: turn timeout_text differ delivering_def)
qed

subsection \<open>The bound on the history\<close>

lemma dispatch_bounded:
  assumes "\<forall>u h. user_contexts self u = Some h \<longrightarrow> length h \<le> 21"
  shows "\<forall>u h. user_contexts (bot (dispatch rt self upd)) u = Some h \<longrightarrow> length h \<le> 21"
proof (cases upd)
  case (StartCommand u)
  with assms show ?thesis
    by (auto simp: start_handler_def Let_def split: option.splits if_splits)
next
  case (ResetCommand u)
  with assms show ?thesis
    by (auto simp: reset_handler_def Let_def split: option.splits if_splits)
next
  case (TextMessage u m post)
  show ?thesis
  proof (intro allI impI)
    fix v h
    assume h: "user_contexts (bot (dispatch rt self upd)) v = Some h"
    show "length h \<le> 21"
    proof (cases "v = u")
      case True
      with h TextMessage have "length h = Suc (length (user_turn self u m))"
        by (auto simp: message_handler_history)
      then show ?thesis
        using length_append_user_turn [of "history_of self u" m] by (simp add: user_turn_def)
    next
      case False
      with h TextMessage have "user_contexts self v = Some h"
        by (simp add: message_handler_others)
      with assms show ?thesis by simp
    qed
  qed
qed

lemma process_updates_bounded:
  "\<forall>u h. user_contexts self u = Some h \<longrightarrow> length h \<le> 21 \<Longrightarrow>
   \<forall>u h. user_contexts (process_updates rt self upds) u = Some h \<longrightarrow> length h \<le> 21"
proof (induction upds arbitrary: self)
  case Nil
  then show ?case by simp
next
  case (Cons upd upds)
  have "\<forall>u h. user_contexts (bot (dispatch rt self upd)) u = Some h \<longrightarrow> length h \<le> 21"
    using Cons.prems by (rule dispatch_bounded)
  then show ?case using Cons.IH by simp
qed

text \<open>
  C2 (as the claim states it, refuted). The claim: no history has more than 20 turns
  after a handler completes. A fresh worker that handles eleven texts of end-user 7,
  each answered by the endpoint, holds a history of 21 turns for that user.
\<close>

theorem C2_counterexample:
  "map_option length
     (user_contexts
        (process_updates delivering (ManagedBot 1 ''1:t'' ''tutor'')
           (map (exchange 7 question answer) [1..<12])) 7)
   = Some 21"
  by code_simp

text \<open>
  C2 (amended). The cap of 20 is applied once per text, after the user turn and before
  the gateway call, and not after the assistant turn. So the history handed to the
  gateway never has more than 20 turns, and for every sequence of updates handled by
  a worker that started with no histories, every history has at most 21 turns after
  each handler completes.
\<close>

theorem C2_history_bound:
  "length (user_turn self u m) \<le> 20
   \<and> (user_contexts (process_updates rt (ManagedBot b t p) upds) v = Some h \<longrightarrow> length h \<le> 21)"
proof -
  have "\<forall>u h. user_contexts (ManagedBot b t p) u = Some h \<longrightarrow> length h \<le> 21"
    by (simp add: ManagedBot_def)
  then have "\<forall>u h. user_contexts (process_updates rt (ManagedBot b t p) upds) u = Some h
               \<longrightarrow> length h \<le> 21"
    by (rule process_updates_bounded)
  then show ?thesis
    using length_append_user_turn [of "history_of self u" m] by (simp add: user_turn_def)
qed

theorem C2_history_bound_witness:
  "length (user_turn (ManagedBot 1 ''1:t'' ''tutor'') 7 ''hello'') \<le> 20
   \<and> length [\<lparr>role = ''user'', content = ''hello''\<rparr>, \<lparr>role = ''assistant'', content = ''Hi there!''\<rparr>]
       \<le> 21"
proof -
  have h: "user_contexts
             (process_updates delivering (ManagedBot 1 ''1:t'' ''tutor'')
                [TextMessage 7 ''hello'' (replying ''Hi there!'')]) 7
           = Some [\<lparr>role = ''user'', content = ''hello''\<rparr>,
                   \<lparr>role = ''assistant'', content = ''Hi there!''\<rparr>]"
    by (simp add: message_handler_history chat_replying user_turn_def append_user_turn_def
        history_of_def ManagedBot_def Let_def)
  show ?thesis
    using C2_history_bound [of "ManagedBot 1 ''1:t'' ''tutor''" 7 "''hello''" delivering 1
        "''1:t''" "''tutor''" "[TextMessage 7 ''hello'' (replying ''Hi there!'')]" 7
        "[\<lparr>role = ''user'', content = ''hello''\<rparr>, \<lparr>role = ''assistant'', content = ''Hi there!''\<rparr>]"]
      h
    by blast
qed

subsection \<open>Twenty-five answered messages\<close>

lemma history_of_exchange:
  "history_of (bot (dispatch rt self (exchange u msg rep i))) u
     = append_user_turn (history_of self u) (msg i) @ [\<lparr>role = ''assistant'', content = rep i\<rparr>]"
  by (simp add: exchange_def message_handler_history chat_replying history_of_def user_turn_def)

lemma history_of_exchanges:
  "history_of (process_updates rt self (map (exchange u msg rep) ns)) u
     = fold (\<lambda>i h. append_user_turn h (msg i) @ [\<lparr>role = ''assistant'', content = rep i\<rparr>])
         ns (history_of self u)"
proof (induction ns arbitrary: self)
  case Nil
  show ?case by simp
next
  case (Cons n ns)
  show ?case by (simp add: Cons.IH history_of_exchange del: dispatch.simps)
qed

lemma upt_1_26:
  "[1..<26] = [1, 2, 3, 4, 5, 6, 7, 8, 9, 10, 11, 12, 13, 14, 15, 16, 17, 18, 19, 20, 21, 22,
               23, 24, 25 :: nat]"
  by code_simp

lemma upt_16_26: "[16..<26] = [16, 17, 18, 19, 20, 21, 22, 23, 24, 25 :: nat]"
  by code_simp

lemma history_of_nonempty:
  "history_of self u = x # xs \<Longrightarrow> user_contexts self u = Some (x # xs)"
  by (simp add: history_of_def split: option.splits)

text \<open>
  C3 (as the claim states it, refuted). The claim: after 25 answered messages the
  history has exactly 20 turns and starts with the user turn of the 6th message. In
  the run of a fresh worker on the texts \<open>question A\<close>, ..., \<open>question Y\<close> of
  end-user 7, answered by \<open>answer A\<close>, ..., \<open>answer Y\<close>, the final history has 21
  turns, and its first turn is not the 6th user turn.
\<close>

theorem C3_counterexample:
  "map_option length
     (user_contexts
        (process_updates delivering (ManagedBot 1 ''1:t'' ''tutor'')
           (map (exchange 7 question answer) [1..<26])) 7)
   \<noteq> Some 20
   \<and> map_option hd
     (user_contexts
        (process_updates delivering (ManagedBot 1 ''1:t'' ''tutor'')
           (map (exchange 7 question answer) [1..<26])) 7)
   \<noteq> Some \<lparr>role = ''user'', content = question 6\<rparr>"
  by code_simp

text \<open>
  C3 (amended). Starting from a worker with no histories, 25 sequential messages of one
  end-user, each answered by the gateway, leave a history of exactly 21 turns: the
  assistant turn that answered the 15th message, followed by the user and assistant
  turns of the 16th to the 25th message in order.
\<close>

theorem C3_twenty_five_exchanges:
  "user_contexts (process_updates rt (ManagedBot b t p) (map (exchange u msg rep) [1..<26])) u
     = Some (\<lparr>role = ''assistant'', content = rep 15\<rparr>
             # concat (map (\<lambda>i. [\<lparr>role = ''user'', content = msg i\<rparr>,
                                \<lparr>role = ''assistant'', content = rep i\<rparr>]) [16..<26]))
   \<and> length (\<lparr>role = ''assistant'', content = rep 15\<rparr>
             # concat (map (\<lambda>i. [\<lparr>role = ''user'', content = msg i\<rparr>,
                                \<lparr>role = ''assistant'', content = rep i\<rparr>]) [16..<26])) = 21"
proof -
  have start: "history_of (ManagedBot b t p) u = []"
    by (simp add: history_of_def ManagedBot_def)
  have "history_of (process_updates rt (ManagedBot b t p) (map (exchange u msg rep) [1..<26])) u
          = \<lparr>role = ''assistant'', content = rep 15\<rparr>
            # concat (map (\<lambda>i. [\<lparr>role = ''user'', content = msg i\<rparr>,
                               \<lparr>role = ''assistant'', content = rep i\<rparr>]) [16..<26])"
    unfolding history_of_exchanges start upt_1_26 upt_16_26
    by (simp add: append_user_turn_def Let_def)
  then show ?thesis
    unfolding upt_16_26 by (simp add: history_of_nonempty)
qed

subsection \<open>Reset\<close>

text \<open>
  C9. For every end-user \<open>u\<close>, the reset command sets the history of \<open>u\<close> to the empty
  history, whether or not \<open>u\<close> had one, and leaves the history of every other
  end-user as it was; when the transport delivers it, the reply is the confirmation
  and no exception leaves the handler.
\<close>

theorem C9_reset_clears_only_the_caller:
  "user_contexts (bot (reset_handler rt self u)) u = Some []
   \<and> (\<forall>v. v \<noteq> u \<longrightarrow> user_contexts (bot (reset_handler rt self u)) v = user_contexts self v)
   \<and> (rt RESET_TEXT = None \<longrightarrow>
        replies (reset_handler rt self u) = [RESET_TEXT] \<and> raised (reset_handler rt self u) = None)"
  by (simp add: reset_handler_def Let_def split: option.splits)

theorem C9_reset_clears_only_the_caller_witness:
  "user_contexts (ManagedBot 1 ''1:t'' ''tutor'') 7 = None
   \<and> user_contexts (bot (reset_handler delivering (ManagedBot 1 ''1:t'' ''tutor'') 7)) 7 = Some []
   \<and> user_contexts (bot (reset_handler delivering (ManagedBot 1 ''1:t'' ''tutor'') 7)) 8
       = user_contexts (ManagedBot 1 ''1:t'' ''tutor'') 8
   \<and> replies (reset_handler delivering (ManagedBot 1 ''1:t'' ''tutor'') 7) = [RESET_TEXT]"
proof -
  have none: "user_contexts (ManagedBot 1 ''1:t'' ''tutor'') 7 = None"
    by (simp add: ManagedBot_def)
  have other: "(8::int) \<noteq> 7" by simp
  have sent: "delivering RESET_TEXT = None" by (simp add: delivering_def)
  from C9_reset_clears_only_the_caller [of delivering "ManagedBot 1 ''1:t'' ''tutor''" 7]
  show ?thesis using none other sent by blast
qed

section \<open>Properties of the supervisor\<close>

lemma start_bot_result:
  "start_bot pf self bid tok p =
     (if bid \<in> set (map fst (bots self)) then Inr (False, self)
      else if pf tok = None
      then Inr (True, self\<lparr>bots := AList.update bid ((ManagedBot bid tok p)\<lparr>application := True\<rparr>)
                                   (bots self)\<rparr>)
      else Inr (False, self))"
  by (auto simp: start_bot_def start_bot_enter_def start_bot_resume_def try_except_def
      start_polling_def ManagedBot_def split: option.splits)

lemma stop_bot_result:
  "stop_bot ps self bid =
     (case map_of (bots self) bid of
        None \<Rightarrow> Inr (False, self)
      | Some mb \<Rightarrow>
          if application mb \<and> ps mb \<noteq> None then Inr (False, self)
          else Inr (True, self\<lparr>bots := AList.delete bid (bots self)\<rparr>))"
  by (auto simp: stop_bot_def stop_def try_except_def split: option.splits)

lemma running_after_update:
  "bid \<in> set (get_running_bots (self\<lparr>bots := AList.update bid mb (bots self)\<rparr>))"
  by (simp add: get_running_bots_def dom_update)

lemma running_after_delete:
  "bid \<notin> set (get_running_bots (self\<lparr>bots := AList.delete bid (bots self)\<rparr>))"
  using delete_notin_dom [of bid "bots self"] by (simp add: get_running_bots_def)

text \<open>
  C4. For every identifier \<open>T\<close>: when \<^verbatim>\<open>start_bot\<close> returns true, the list of
  \<^verbatim>\<open>get_running_bots\<close> contains \<open>T\<close>; when a later \<^verbatim>\<open>stop_bot\<close> for \<open>T\<close>, in whatever
  state the registry then is, returns true, the list no longer contains \<open>T\<close>.
\<close>

theorem C4_running_after_start_not_after_stop:
  "(start_bot pf self T tok p = Inr (True, self1) \<longrightarrow> T \<in> set (get_running_bots self1))
   \<and> (stop_bot ps self2 T = Inr (True, self3) \<longrightarrow> T \<notin> set (get_running_bots self3))"
proof (intro conjI impI)
  assume "start_bot pf self T tok p = Inr (True, self1)"
  then have "self1 = self\<lparr>bots := AList.update T ((ManagedBot T tok p)\<lparr>application := True\<rparr>)
                                   (bots self)\<rparr>"
    by (auto simp: start_bot_result split: if_splits)
  then show "T \<in> set (get_running_bots self1)"
    by (simp add: running_after_update)
next
  assume "stop_bot ps self2 T = Inr (True, self3)"
  then have "self3 = self2\<lparr>bots := AList.delete T (bots self2)\<rparr>"
    by (auto simp: stop_bot_result split: option.splits if_splits)
  then show "T \<notin> set (get_running_bots self3)"
    by (simp add: running_after_delete)
qed

theorem C4_running_after_start_not_after_stop_witness:
  "start_bot accepting BotManager 5 ''5:t'' ''tutor''
     = Inr (True, \<lparr>bots = [(5, (ManagedBot 5 ''5:t'' ''tutor'')\<lparr>application := True\<rparr>)]\<rparr>)
   \<and> 5 \<in> set (get_running_bots \<lparr>bots = [(5, (ManagedBot 5 ''5:t'' ''tutor'')\<lparr>application := True\<rparr>)]\<rparr>)
   \<and> stop_bot releasing \<lparr>bots = [(5, (ManagedBot 5 ''5:t'' ''tutor'')\<lparr>application := True\<rparr>)]\<rparr> 5
     = Inr (True, BotManager)
   \<and> 5 \<notin> set (get_running_bots BotManager)"
proof -
  have started: "start_bot accepting BotManager 5 ''5:t'' ''tutor''
     = Inr (True, \<lparr>bots = [(5, (ManagedBot 5 ''5:t'' ''tutor'')\<lparr>application := True\<rparr>)]\<rparr>)"
    by (simp add: start_bot_result BotManager_def accepting_def)
  have stopped: "stop_bot releasing
       \<lparr>bots = [(5, (ManagedBot 5 ''5:t'' ''tutor'')\<lparr>application := True\<rparr>)]\<rparr> 5
     = Inr (True, BotManager)"
    by (simp add: stop_bot_result BotManager_def releasing_def)
  from C4_running_after_start_not_after_stop
         [of accepting BotManager 5 "''5:t''" "''tutor''"
             "\<lparr>bots = [(5, (ManagedBot 5 ''5:t'' ''tutor'')\<lparr>application := True\<rparr>)]\<rparr>"
             releasing
             "\<lparr>bots = [(5, (ManagedBot 5 ''5:t'' ''tutor'')\<lparr>application := True\<rparr>)]\<rparr>"
             BotManager]
  show ?thesis using started stopped by blast
qed

lemma overlapping_starts_result:
  assumes "T \<notin> set (get_running_bots self)"
  shows "fst (overlapping_starts self T pf1 tok1 p1 pf2 tok2 p2) = Inr (pf1 tok1 = None)"
    and "fst (snd (overlapping_starts self T pf1 tok1 p1 pf2 tok2 p2)) = Inr (pf2 tok2 = None)"
proof -
  have enter1: "start_bot_enter self T tok1 p1 = Suspended (ManagedBot T tok1 p1)"
    and enter2: "start_bot_enter self T tok2 p2 = Suspended (ManagedBot T tok2 p2)"
    using assms by (simp_all add: start_bot_enter_def get_running_bots_def)
  have resume: "\<And>pf reg tok p. map_sum id fst (start_bot_resume pf reg (Suspended (ManagedBot T tok p)))
                  = Inr (pf tok = None)"
    by (auto simp: start_bot_resume_def try_except_def start_polling_def ManagedBot_def
        split: option.splits)
  show "fst (overlapping_starts self T pf1 tok1 p1 pf2 tok2 p2) = Inr (pf1 tok1 = None)"
    by (simp add: overlapping_starts_def Let_def enter1 resume)
  show "fst (snd (overlapping_starts self T pf1 tok1 p1 pf2 tok2 p2)) = Inr (pf2 tok2 = None)"
    by (simp add: overlapping_starts_def Let_def enter2 resume)
qed

text \<open>
  C5 (as the claim states it, refuted). The claim: of two calls of \<^verbatim>\<open>start_bot\<close> for the
  same identifier with no stop in between, exactly one returns true, however the
  calls interleave. Two calls on an empty registry that are both suspended at the
  \<^verbatim>\<open>await\<close> before either resumes both return true; and a call whose worker start is
  rejected returns false and leaves the registry as it was, so two such calls in a
  row both return false.
\<close>

theorem C5_counterexample:
  "fst (overlapping_starts BotManager 5 accepting ''5:t'' ''tutor'' accepting ''5:t'' ''tutor'')
     = Inr True
   \<and> fst (snd (overlapping_starts BotManager 5 accepting ''5:t'' ''tutor'' accepting ''5:t'' ''tutor''))
     = Inr True
   \<and> start_bot rejecting BotManager 5 ''5:t'' ''tutor'' = Inr (False, BotManager)"
  by (simp add: overlapping_starts_def registry_after_def start_bot_result start_bot_enter_def
      start_bot_resume_def try_except_def start_polling_def ManagedBot_def BotManager_def
      accepting_def rejecting_def Let_def)

text \<open>
  C5 (amended). For two calls of \<^verbatim>\<open>start_bot\<close> for the same identifier made one after
  the other, the second beginning after the first has returned, with nothing in
  between: they never both return true; when the first returns true the second
  returns false and changes nothing; and exactly one of them returns true precisely
  when the identifier was not running before and the worker start of at least one of
  the calls goes through. There is no lock: of two calls for an identifier that is not
  running, both suspended at the \<^verbatim>\<open>await\<close> before either resumes, each returns true
  exactly when its own worker start goes through, so both return true when both
  worker starts go through.
\<close>

theorem C5_two_starts:
  "(start_bot pf1 self T tok1 p1 = Inr (r1, self1)
      \<and> start_bot pf2 self1 T tok2 p2 = Inr (r2, self2) \<longrightarrow>
        \<not> (r1 \<and> r2)
        \<and> (r1 \<longrightarrow> \<not> r2 \<and> self2 = self1)
        \<and> ((r1 \<noteq> r2)
             = (T \<notin> set (get_running_bots self) \<and> (pf1 tok1 = None \<or> pf2 tok2 = None))))
   \<and> (T \<notin> set (get_running_bots self) \<longrightarrow>
        fst (overlapping_starts self T pf1 tok1 p1 pf2 tok2 p2) = Inr (pf1 tok1 = None)
        \<and> fst (snd (overlapping_starts self T pf1 tok1 p1 pf2 tok2 p2)) = Inr (pf2 tok2 = None))
   \<and> (T \<notin> set (get_running_bots self) \<and> pf1 tok1 = None \<and> pf2 tok2 = None \<longrightarrow>
        fst (overlapping_starts self T pf1 tok1 p1 pf2 tok2 p2) = Inr True
        \<and> fst (snd (overlapping_starts self T pf1 tok1 p1 pf2 tok2 p2)) = Inr True)"
proof -
  have in_a_row: "\<not> (r1 \<and> r2)
        \<and> (r1 \<longrightarrow> \<not> r2 \<and> self2 = self1)
        \<and> ((r1 \<noteq> r2)
             = (T \<notin> set (get_running_bots self) \<and> (pf1 tok1 = None \<or> pf2 tok2 = None)))"
    if first: "start_bot pf1 self T tok1 p1 = Inr (r1, self1)"
      and second: "start_bot pf2 self1 T tok2 p2 = Inr (r2, self2)"
  proof (cases "T \<in> set (map fst (bots self))")
    case True
    with first second show ?thesis
      by (auto simp: start_bot_result get_running_bots_def)
  next
    case False
    show ?thesis
    proof (cases "pf1 tok1 = None")
      case ok: True
      from False ok first have r1: "r1"
        and s1: "self1 = self\<lparr>bots := AList.update T ((ManagedBot T tok1 p1)\<lparr>application := True\<rparr>)
                                        (bots self)\<rparr>"
        by (auto simp: start_bot_result)
      from s1 have "T \<in> set (map fst (bots self1))"
        by (simp add: dom_update)
      with second have "\<not> r2" "self2 = self1"
        by (auto simp: start_bot_result)
      with r1 False ok show ?thesis
        by (simp add: get_running_bots_def)
    next
      case bad: False
      from False bad first have r1: "\<not> r1" and s1: "self1 = self"
        by (auto simp: start_bot_result)
      from False s1 second have "r2 = (pf2 tok2 = None)"
        by (auto simp: start_bot_result split: if_splits)
      with r1 False bad show ?thesis
        by (auto simp: get_running_bots_def)
    qed
  qed
  have overlapping:
    "fst (overlapping_starts self T pf1 tok1 p1 pf2 tok2 p2) = Inr (pf1 tok1 = None)
     \<and> fst (snd (overlapping_starts self T pf1 tok1 p1 pf2 tok2 p2)) = Inr (pf2 tok2 = None)"
    if "T \<notin> set (get_running_bots self)"
    using that overlapping_starts_result [of T self pf1 tok1 p1 pf2 tok2 p2] by simp
  have both_true:
    "fst (overlapping_starts self T pf1 tok1 p1 pf2 tok2 p2) = Inr True
     \<and> fst (snd (overlapping_starts self T pf1 tok1 p1 pf2 tok2 p2)) = Inr True"
    if "T \<notin> set (get_running_bots self)" and "pf1 tok1 = None" and "pf2 tok2 = None"
    using that overlapping by simp
  show ?thesis
  proof (rule conjI [OF _ conjI])
    show "start_bot pf1 self T tok1 p1 = Inr (r1, self1)
      \<and> start_bot pf2 self1 T tok2 p2 = Inr (r2, self2) \<longrightarrow>
        \<not> (r1 \<and> r2)
        \<and> (r1 \<longrightarrow> \<not> r2 \<and> self2 = self1)
        \<and> ((r1 \<noteq> r2)
             = (T \<notin> set (get_running_bots self) \<and> (pf1 tok1 = None \<or> pf2 tok2 = None)))"
    proof
      assume calls: "start_bot pf1 self T tok1 p1 = Inr (r1, self1)
        \<and> start_bot pf2 self1 T tok2 p2 = Inr (r2, self2)"
      show "\<not> (r1 \<and> r2)
        \<and> (r1 \<longrightarrow> \<not> r2 \<and> self2 = self1)
        \<and> ((r1 \<noteq> r2)
             = (T \<notin> set (get_running_bots self) \<and> (pf1 tok1 = None \<or> pf2 tok2 = None)))"
        by (rule in_a_row [OF conjunct1 [OF calls] conjunct2 [OF calls]])
    qed
    show "T \<notin> set (get_running_bots self) \<longrightarrow>
        fst (overlapping_starts self T pf1 tok1 p1 pf2 tok2 p2) = Inr (pf1 tok1 = None)
        \<and> fst (snd (overlapping_starts self T pf1 tok1 p1 pf2 tok2 p2)) = Inr (pf2 tok2 = None)"
      by (rule impI) (rule overlapping)
    show "T \<notin> set (get_running_bots self) \<and> pf1 tok1 = None \<and> pf2 tok2 = None \<longrightarrow>
        fst (overlapping_starts self T pf1 tok1 p1 pf2 tok2 p2) = Inr True
        \<and> fst (snd (overlapping_starts self T pf1 tok1 p1 pf2 tok2 p2)) = Inr True"
    proof
      assume h: "T \<notin> set (get_running_bots self) \<and> pf1 tok1 = None \<and> pf2 tok2 = None"
      show "fst (overlapping_starts self T pf1 tok1 p1 pf2 tok2 p2) = Inr True
        \<and> fst (snd (overlapping_starts self T pf1 tok1 p1 pf2 tok2 p2)) = Inr True"
        using h by (intro both_true) simp_all
    qed
  qed
qed

theorem C5_two_starts_witness:
  "start_bot accepting BotManager 5 ''5:t'' ''tutor''
     = Inr (True, \<lparr>bots = [(5, (ManagedBot 5 ''5:t'' ''tutor'')\<lparr>application := True\<rparr>)]\<rparr>)
   \<and> start_bot accepting \<lparr>bots = [(5, (ManagedBot 5 ''5:t'' ''tutor'')\<lparr>application := True\<rparr>)]\<rparr>
        5 ''5:t'' ''tutor''
     = Inr (False, \<lparr>bots = [(5, (ManagedBot 5 ''5:t'' ''tutor'')\<lparr>application := True\<rparr>)]\<rparr>)
   \<and> 5 \<notin> set (get_running_bots BotManager)
   \<and> accepting ''5:t'' = None
   \<and> fst (overlapping_starts BotManager 5 accepting ''5:t'' ''tutor'' accepting ''5:t'' ''tutor'')
       = Inr True
   \<and> fst (snd (overlapping_starts BotManager 5 accepting ''5:t'' ''tutor'' accepting ''5:t'' ''tutor''))
       = Inr True"
proof -
  have first: "start_bot accepting BotManager 5 ''5:t'' ''tutor''
     = Inr (True, \<lparr>bots = [(5, (ManagedBot 5 ''5:t'' ''tutor'')\<lparr>application := True\<rparr>)]\<rparr>)"
    by (simp add: start_bot_result BotManager_def accepting_def)
  have second: "start_bot accepting
        \<lparr>bots = [(5, (ManagedBot 5 ''5:t'' ''tutor'')\<lparr>application := True\<rparr>)]\<rparr> 5 ''5:t'' ''tutor''
     = Inr (False, \<lparr>bots = [(5, (ManagedBot 5 ''5:t'' ''tutor'')\<lparr>application := True\<rparr>)]\<rparr>)"
    by (simp add: start_bot_result)
  have absent: "5 \<notin> set (get_running_bots BotManager)"
    by (simp add: get_running_bots_def BotManager_def)
  have accepted: "accepting ''5:t'' = None"
    by (simp add: accepting_def)
  from C5_two_starts
         [of accepting BotManager 5 "''5:t''" "''tutor''" True
             "\<lparr>bots = [(5, (ManagedBot 5 ''5:t'' ''tutor'')\<lparr>application := True\<rparr>)]\<rparr>"
             accepting "''5:t''" "''tutor''" False
             "\<lparr>bots = [(5, (ManagedBot 5 ''5:t'' ''tutor'')\<lparr>application := True\<rparr>)]\<rparr>"]
  show ?thesis using first second absent accepted by blast
qed

text \<open>
  C6. For every identifier \<open>T\<close> that is not in the registry, \<^verbatim>\<open>stop_bot\<close> returns false
  and the registry, with the state of every worker in it, is as before.
\<close>

theorem C6_stop_of_unknown_identifier:
  "T \<notin> set (get_running_bots self) \<Longrightarrow> stop_bot ps self T = Inr (False, self)"
  by (simp add: stop_bot_result get_running_bots_def map_of_eq_None_iff [THEN iffD2])

theorem C6_stop_of_unknown_identifier_witness:
  "5 \<notin> set (get_running_bots \<lparr>bots = [(3, ManagedBot 3 ''3:t'' ''tutor'')]\<rparr>)
   \<and> stop_bot failing \<lparr>bots = [(3, ManagedBot 3 ''3:t'' ''tutor'')]\<rparr> 5
       = Inr (False, \<lparr>bots = [(3, ManagedBot 3 ''3:t'' ''tutor'')]\<rparr>)"
proof -
  have absent: "5 \<notin> set (get_running_bots \<lparr>bots = [(3, ManagedBot 3 ''3:t'' ''tutor'')]\<rparr>)"
    by (simp add: get_running_bots_def)
  from C6_stop_of_unknown_identifier [OF absent, of failing]
  show ?thesis using absent by simp
qed

text \<open>
  C8. For every input, \<^verbatim>\<open>start_bot\<close> and \<^verbatim>\<open>stop_bot\<close> return a boolean and raise
  nothing, also when the worker's \<^verbatim>\<open>start_polling\<close> or \<^verbatim>\<open>stop\<close> raises: then the
  result is false, and the registry is as before.
\<close>

theorem C8_start_and_stop_never_raise:
  "(\<exists>r self1. start_bot pf self bid tok p = Inr (r, self1))
   \<and> (\<exists>r self1. stop_bot ps self bid = Inr (r, self1))
   \<and> (\<forall>e. start_polling pf (ManagedBot bid tok p) = Inl e \<longrightarrow>
          start_bot pf self bid tok p = Inr (False, self))
   \<and> (\<forall>mb e. map_of (bots self) bid = Some mb \<and> stop ps mb = Inl e \<longrightarrow>
          stop_bot ps self bid = Inr (False, self))"
proof (intro conjI allI impI)
  show "\<exists>r self1. start_bot pf self bid tok p = Inr (r, self1)"
    by (auto simp: start_bot_result)
  show "\<exists>r self1. stop_bot ps self bid = Inr (r, self1)"
    by (auto simp: stop_bot_result split: option.splits)
next
  fix e
  assume "start_polling pf (ManagedBot bid tok p) = Inl e"
  then have "pf tok \<noteq> None"
    by (auto simp: start_polling_def ManagedBot_def split: option.splits)
  then show "start_bot pf self bid tok p = Inr (False, self)"
    by (auto simp: start_bot_result)
next
  fix mb e
  assume "map_of (bots self) bid = Some mb \<and> stop ps mb = Inl e"
  then show "stop_bot ps self bid = Inr (False, self)"
    by (auto simp: stop_bot_def try_except_def)
qed

theorem C8_start_and_stop_never_raise_witness:
  "start_polling rejecting (ManagedBot 5 ''5:t'' ''tutor'') = Inl (Exception ''InvalidToken'')
   \<and> start_bot rejecting \<lparr>bots = [(3, (ManagedBot 3 ''3:t'' ''tutor'')\<lparr>application := True\<rparr>)]\<rparr>
        5 ''5:t'' ''tutor''
       = Inr (False, \<lparr>bots = [(3, (ManagedBot 3 ''3:t'' ''tutor'')\<lparr>application := True\<rparr>)]\<rparr>)
   \<and> stop failing ((ManagedBot 3 ''3:t'' ''tutor'')\<lparr>application := True\<rparr>)
       = Inl (Exception ''NetworkError'')
   \<and> stop_bot failing \<lparr>bots = [(3, (ManagedBot 3 ''3:t'' ''tutor'')\<lparr>application := True\<rparr>)]\<rparr> 3
       = Inr (False, \<lparr>bots = [(3, (ManagedBot 3 ''3:t'' ''tutor'')\<lparr>application := True\<rparr>)]\<rparr>)"
proof -
  have raise1: "start_polling rejecting (ManagedBot 5 ''5:t'' ''tutor'')
                  = Inl (Exception ''InvalidToken'')"
    by (simp add: start_polling_def rejecting_def ManagedBot_def)
  have found: "map_of (bots \<lparr>bots = [(3, (ManagedBot 3 ''3:t'' ''tutor'')\<lparr>application := True\<rparr>)]\<rparr>) 3
                 = Some ((ManagedBot 3 ''3:t'' ''tutor'')\<lparr>application := True\<rparr>)"
    by simp
  have raise2: "stop failing ((ManagedBot 3 ''3:t'' ''tutor'')\<lparr>application := True\<rparr>)
                  = Inl (Exception ''NetworkError'')"
    by (simp add: stop_def failing_def)
  from C8_start_and_stop_never_raise
         [of rejecting "\<lparr>bots = [(3, (ManagedBot 3 ''3:t'' ''tutor'')\<lparr>application := True\<rparr>)]\<rparr>"
             5 "''5:t''" "''tutor''" failing]
       C8_start_and_stop_never_raise
         [of rejecting "\<lparr>bots = [(3, (ManagedBot 3 ''3:t'' ''tutor'')\<lparr>application := True\<rparr>)]\<rparr>"
             3 "''5:t''" "''tutor''" failing]
  show ?thesis using raise1 found raise2 by blast
qed

section \<open>Properties of the gateway client\<close>

text \<open>
  C7. For every history and behaviour profile, \<^verbatim>\<open>chat\<close> sends the endpoint one
  request, whose message list is: one system-role message carrying the profile exactly
  when the profile is non-empty, followed by the caller's history, unchanged and in
  order; what \<^verbatim>\<open>chat\<close> returns is read off the endpoint's answer to that request.
\<close>

theorem C7_outbound_messages:
  "chat post msgs prompt mdl =
     (case post \<lparr>model = mdl,
                 messages = (if prompt \<noteq> [] then [\<lparr>role = ''system'', content = prompt\<rparr>] else [])
                            @ msgs\<rparr> of
        TimeoutError \<Rightarrow> API_TIMEOUT_TEXT
      | OtherError e \<Rightarrow> API_FAILURE_TEXT
      | Response status body \<Rightarrow>
          if status \<noteq> 200 then API_ERROR_TEXT
          else (case body of None \<Rightarrow> API_FAILURE_TEXT | Some reply \<Rightarrow> reply))"
  by (simp add: chat_def chat_payload_def full_messages_def)

theorem C7_outbound_messages_witness:
  "chat (expecting \<lparr>model = DEFAULT_MODEL,
                    messages = [\<lparr>role = ''system'', content = ''friendly tutor''\<rparr>,
                                \<lparr>role = ''user'', content = ''hello''\<rparr>]\<rparr> ''Hi there!'')
        [\<lparr>role = ''user'', content = ''hello''\<rparr>] ''friendly tutor'' DEFAULT_MODEL = ''Hi there!''
   \<and> chat (expecting \<lparr>model = DEFAULT_MODEL,
                      messages = [\<lparr>role = ''user'', content = ''hello''\<rparr>]\<rparr> ''Hi there!'')
        [\<lparr>role = ''user'', content = ''hello''\<rparr>] [] DEFAULT_MODEL = ''Hi there!''"
  using C7_outbound_messages
          [of "expecting \<lparr>model = DEFAULT_MODEL,
                    messages = [\<lparr>role = ''system'', content = ''friendly tutor''\<rparr>,
                                \<lparr>role = ''user'', content = ''hello''\<rparr>]\<rparr> ''Hi there!''"
              "[\<lparr>role = ''user'', content = ''hello''\<rparr>]" "''friendly tutor''" DEFAULT_MODEL]
        C7_outbound_messages
          [of "expecting \<lparr>model = DEFAULT_MODEL,
                      messages = [\<lparr>role = ''user'', content = ''hello''\<rparr>]\<rparr> ''Hi there!''"
              "[\<lparr>role = ''user'', content = ''hello''\<rparr>]" "[]" DEFAULT_MODEL]
  by (simp add: expecting_def)

section \<open>Properties of the credential format check\<close>

lemma split_str_not_Nil: "split_str sep s \<noteq> []"
  by (induction s) (auto split: list.splits)

lemma split_str_single: "(split_str sep s = [a]) = (s = a \<and> sep \<notin> set a)"
proof (induction s arbitrary: a)
  case Nil
  show ?case by auto
next
  case (Cons c cs)
  show ?case
  proof (cases "c = sep")
    case True
    then show ?thesis using split_str_not_Nil [of sep cs] by auto
  next
    case False
    obtain p ps where pps: "split_str sep cs = p # ps"
      using split_str_not_Nil [of sep cs] by (cases "split_str sep cs") auto
    have "(split_str sep (c # cs) = [a]) = (\<exists>a'. a = c # a' \<and> split_str sep cs = [a'])"
      using False pps by auto
    also have "\<dots> = (\<exists>a'. a = c # a' \<and> cs = a' \<and> sep \<notin> set a')"
      by (simp add: Cons.IH)
    also have "\<dots> = (c # cs = a \<and> sep \<notin> set a)"
      using False by auto
    finally show ?thesis .
  qed
qed

lemma split_str_two:
  "(split_str sep s = [a, b]) = (s = a @ sep # b \<and> sep \<notin> set a \<and> sep \<notin> set b)"
proof (induction s arbitrary: a)
  case Nil
  show ?case by auto
next
  case (Cons c cs)
  show ?case
  proof (cases "c = sep")
    case True
    have "(split_str sep (c # cs) = [a, b]) = (a = [] \<and> split_str sep cs = [b])"
      using True by auto
    also have "\<dots> = (a = [] \<and> cs = b \<and> sep \<notin> set b)"
      by (simp add: split_str_single)
    also have "\<dots> = (c # cs = a @ sep # b \<and> sep \<notin> set a \<and> sep \<notin> set b)"
      using True by (cases a) auto
    finally show ?thesis .
  next
    case False
    obtain p ps where pps: "split_str sep cs = p # ps"
      using split_str_not_Nil [of sep cs] by (cases "split_str sep cs") auto
    have "(split_str sep (c # cs) = [a, b]) = (\<exists>a'. a = c # a' \<and> split_str sep cs = [a', b])"
      using False pps by auto
    also have "\<dots> = (\<exists>a'. a = c # a' \<and> cs = a' @ sep # b \<and> sep \<notin> set a' \<and> sep \<notin> set b)"
      by (simp add: Cons.IH)
    also have "\<dots> = (c # cs = a @ sep # b \<and> sep \<notin> set a \<and> sep \<notin> set b)"
      using False by (cases a) auto
    finally show ?thesis .
  qed
qed

lemma validate_token_split:
  "validate_token digit token =
     (\<exists>a b. split_str COLON token = [a, b]
        \<and> a \<noteq> [] \<and> list_all digit a \<and> 20 < length b)"
proof (cases "length (split_str COLON token) = 2")
  case True
  then obtain a b where ab: "split_str COLON token = [a, b]"
    by (auto simp: length_Suc_conv numeral_2_eq_2)
  then show ?thesis
    by (simp add: validate_token_def isdigit_def)
next
  case False
  then have "\<not> validate_token digit token"
    by (simp add: validate_token_def)
  moreover have "\<not> (\<exists>a b. split_str COLON token = [a, b]
        \<and> a \<noteq> [] \<and> list_all digit a \<and> 20 < length b)"
    using False by auto
  ultimately show ?thesis by simp
qed

lemma validate_token_parts:
  "validate_token digit token =
     (\<exists>a b. token = a @ COLON # b \<and> COLON \<notin> set a \<and> COLON \<notin> set b
        \<and> a \<noteq> [] \<and> list_all digit a \<and> 20 < length b)"
  unfolding validate_token_split split_str_two by blast

text \<open>
  The result depends on the digit property at the code points of the token only, so
  \<open>latin1_digit\<close> decides every token of code points below 256 as the whole database
  does.
\<close>

lemma validate_token_cong:
  assumes "\<forall>c \<in> set token. digit c = digit' c"
  shows "validate_token digit token = validate_token digit' token"
proof -
  have "list_all digit a = list_all digit' a" if "token = a @ COLON # b" for a b
    using assms that by (auto simp: list_all_iff)
  then show ?thesis
    unfolding validate_token_parts by blast
qed

text \<open>
  C10 (as the claim states it, refuted). The claim: a token is accepted if and only if
  it splits on the colon into exactly two parts, the first made of decimal digits only
  and the second longer than 20 characters. The token made of superscript two
  (U+00B2, code point 178), a colon and 21 letters splits into exactly two parts; its
  first part is not made of decimal digits only, since superscript two is not a
  decimal digit; and the token is accepted, since superscript two is a digit for
  \<^verbatim>\<open>str.isdigit\<close>.
\<close>

theorem C10_counterexample:
  "split_str COLON (178 # codepoints '':ABCDEFGHIJKLMNOPQRSTU'')
     = [[178], codepoints ''ABCDEFGHIJKLMNOPQRSTU'']
   \<and> \<not> list_all decimal_digit [178]
   \<and> 20 < length (codepoints ''ABCDEFGHIJKLMNOPQRSTU'')
   \<and> validate_token latin1_digit (178 # codepoints '':ABCDEFGHIJKLMNOPQRSTU'')"
proof -
  have parts: "split_str COLON (178 # codepoints '':ABCDEFGHIJKLMNOPQRSTU'')
                 = [[178], codepoints ''ABCDEFGHIJKLMNOPQRSTU'']"
    by (simp add: split_str_two codepoints_def COLON_def)
  show ?thesis
    unfolding validate_token_def parts
    by (simp add: isdigit_def latin1_digit_def decimal_digit_def codepoints_def)
qed

text \<open>
  C10 (amended). A token is accepted if and only if it splits on the colon into exactly
  two parts (that is, it has exactly one colon), the first part passes
  \<^verbatim>\<open>str.isdigit\<close>, that is, it is not empty and is made only of characters that are
  digits of the Unicode character database (the decimal digits 0 to 9, and others such
  as superscript two), and the second part is longer than 20 characters.
\<close>

theorem C10_validate_token_iff:
  "(validate_token digit token =
      (\<exists>a b. split_str COLON token = [a, b]
         \<and> a \<noteq> [] \<and> list_all digit a \<and> 20 < length b))
   \<and> (validate_token digit token =
      (\<exists>a b. token = a @ COLON # b \<and> COLON \<notin> set a \<and> COLON \<notin> set b
         \<and> a \<noteq> [] \<and> list_all digit a \<and> 20 < length b))"
  using validate_token_split [of digit token] validate_token_parts [of digit token]
  by (rule conjI)

theorem C10_validate_token_iff_witness:
  "validate_token latin1_digit (codepoints ''1234567890:ABCdefGHIjklMNOpqrsTUVwxyz'')
   \<and> split_str COLON (codepoints ''1234567890:ABCdefGHIjklMNOpqrsTUVwxyz'')
       = [codepoints ''1234567890'', codepoints ''ABCdefGHIjklMNOpqrsTUVwxyz'']
   \<and> \<not> validate_token latin1_digit (codepoints ''1234567890:ABCdefGHIjklMNOpqrsT'')
   \<and> split_str COLON (codepoints ''1234567890:ABCdefGHIjklMNOpqrsT'')
       = [codepoints ''1234567890'', codepoints ''ABCdefGHIjklMNOpqrsT'']"
proof -
  have long: "split_str COLON (codepoints ''1234567890:ABCdefGHIjklMNOpqrsTUVwxyz'')
       = [codepoints ''1234567890'', codepoints ''ABCdefGHIjklMNOpqrsTUVwxyz'']"
    by (simp add: split_str_two codepoints_def COLON_def)
  have short: "split_str COLON (codepoints ''1234567890:ABCdefGHIjklMNOpqrsT'')
       = [codepoints ''1234567890'', codepoints ''ABCdefGHIjklMNOpqrsT'']"
    by (simp add: split_str_two codepoints_def COLON_def)
  have digits: "codepoints ''1234567890'' \<noteq> [] \<and> list_all latin1_digit (codepoints ''1234567890'')"
    by (simp add: codepoints_def latin1_digit_def)
  have lengths: "20 < length (codepoints ''ABCdefGHIjklMNOpqrsTUVwxyz'')
                 \<and> \<not> 20 < length (codepoints ''ABCdefGHIjklMNOpqrsT'')"
    by (simp add: codepoints_def)
  show ?thesis
    using C10_validate_token_iff
            [of latin1_digit "codepoints ''1234567890:ABCdefGHIjklMNOpqrsTUVwxyz''", THEN conjunct1]
          C10_validate_token_iff
            [of latin1_digit "codepoints ''1234567890:ABCdefGHIjklMNOpqrsT''", THEN conjunct1]
          digits lengths
    by (simp add: long short)
qed

end
